theory Spec2Isabelle
  imports Main "HOL-Library.AList"
begin

section \<open>Values, documents and the Student record\<close>

text \<open>
  The model follows \<^verbatim>\<open>src/models/student.py\<close>. A \<^verbatim>\<open>datetime\<close> is an opaque
  point in time; the values a Firestore document of this program holds are strings,
  integers, \<^verbatim>\<open>None\<close>, a timestamp, or the list of timestamps of the attendance
  history. A document (a Python \<^verbatim>\<open>dict\<close>) is a partial map from field names to values.
\<close>

datatype datetime = Datetime int

datatype pyval =
    PyNone
  | PyStr string
  | PyInt int
  | PyDatetime datetime
  | PyDates "datetime list"

type_synonym document = "string \<rightharpoonup> pyval"

text \<open>
  The fields of class \<^verbatim>\<open>Student\<close>, typed as the constructor annotates them
  (\<^verbatim>\<open>uid: str\<close>, \<^verbatim>\<open>age: int\<close>, ...). Python's integers are unbounded, hence \<open>int\<close>.
\<close>

record student =
  uid :: string
  name :: string
  email :: string
  belt :: string
  age :: int
  address :: string
  education :: string
  degrees :: int
  total_presences :: int
  last_presence_date :: "datetime option"
  history_presences :: "datetime list"

text \<open>
  \<^verbatim>\<open>__init__\<close>: the attendance state always starts empty. The Python defaults
  \<^verbatim>\<open>address=""\<close>, \<^verbatim>\<open>education=""\<close>, \<^verbatim>\<open>degrees=0\<close> are passed explicitly by every caller
  in the repository.
\<close>

definition Student ::
  "string \<Rightarrow> string \<Rightarrow> string \<Rightarrow> string \<Rightarrow> int \<Rightarrow> string \<Rightarrow> string \<Rightarrow> int \<Rightarrow> student" where
  "Student uid' name' email' belt' age' address' education' degrees' =
     \<lparr> uid = uid', name = name', email = email', belt = belt', age = age',
       address = address', education = education', degrees = degrees',
       total_presences = 0, last_presence_date = None, history_presences = [] \<rparr>"

text \<open>\<^verbatim>\<open>to_dict\<close>: the eleven fields under their names.\<close>

definition to_dict :: "student \<Rightarrow> document" where
  "to_dict s =
     [ ''uid'' \<mapsto> PyStr (uid s),
       ''name'' \<mapsto> PyStr (name s),
       ''email'' \<mapsto> PyStr (email s),
       ''belt'' \<mapsto> PyStr (belt s),
       ''age'' \<mapsto> PyInt (age s),
       ''address'' \<mapsto> PyStr (address s),
       ''education'' \<mapsto> PyStr (education s),
       ''degrees'' \<mapsto> PyInt (degrees s),
       ''total_presences'' \<mapsto> PyInt (total_presences s),
       ''last_presence_date'' \<mapsto>
          (case last_presence_date s of None \<Rightarrow> PyNone | Some d \<Rightarrow> PyDatetime d),
       ''history_presences'' \<mapsto> PyDates (history_presences s) ]"

text \<open>
  \<^verbatim>\<open>data.get(key, default)\<close> read into a typed field. An absent key yields the
  default. A stored value of another type than the field's annotation has no
  counterpart in the typed record (Python would keep it as it is); the readers below
  send it to the default, and no theorem of this file relies on that case.
\<close>

definition get_str :: "document \<Rightarrow> string \<Rightarrow> string \<Rightarrow> string" where
  "get_str data k dflt = (case data k of Some (PyStr v) \<Rightarrow> v | _ \<Rightarrow> dflt)"

definition get_int :: "document \<Rightarrow> string \<Rightarrow> int \<Rightarrow> int" where
  "get_int data k dflt = (case data k of Some (PyInt v) \<Rightarrow> v | _ \<Rightarrow> dflt)"

definition get_date :: "document \<Rightarrow> string \<Rightarrow> datetime option" where
  "get_date data k = (case data k of Some (PyDatetime v) \<Rightarrow> Some v | _ \<Rightarrow> None)"

definition get_dates :: "document \<Rightarrow> string \<Rightarrow> datetime list \<Rightarrow> datetime list" where
  "get_dates data k dflt = (case data k of Some (PyDates v) \<Rightarrow> v | _ \<Rightarrow> dflt)"

text \<open>\<^verbatim>\<open>from_dict\<close>: the constructor on the profile fields, then the attendance state.\<close>

definition from_dict :: "document \<Rightarrow> student" where
  "from_dict data =
     (let student = Student (get_str data ''uid'' '''') (get_str data ''name'' '''')
                      (get_str data ''email'' '''') (get_str data ''belt'' '''')
                      (get_int data ''age'' 0) (get_str data ''address'' '''')
                      (get_str data ''education'' '''') (get_int data ''degrees'' 0);
          student = student\<lparr>total_presences := get_int data ''total_presences'' 0\<rparr>;
          student = student\<lparr>last_presence_date := get_date data ''last_presence_date''\<rparr>;
          student = student\<lparr>history_presences := get_dates data ''history_presences'' []\<rparr>
      in student)"

section \<open>The promotion rule evaluator\<close>

text \<open>
  \<^verbatim>\<open>calculate_presences_for_next_degree\<close>, branch by branch in the source's order.
  The belt labels are the Portuguese ones the source compares with.
\<close>

definition calculate_presences_for_next_degree :: "student \<Rightarrow> int" where
  "calculate_presences_for_next_degree s =
     (if age s \<le> 6 then
        (if degrees s = 0 then max 0 (10 - total_presences s)
         else if degrees s = 1 then max 0 (15 - total_presences s)
         else if degrees s = 2 then max 0 (15 - total_presences s)
         else if degrees s = 3 then max 0 (20 - total_presences s)
         else 0)
      else if age s \<le> 13 then
        (let presences_needed = (degrees s + 1) * 25
         in max 0 (presences_needed - total_presences s))
      else
        (if belt s = ''branca'' then max 0 (50 - total_presences s)
         else if belt s \<in> set [''colorida'', ''cinza'', ''amarela'', ''laranja'', ''verde'']
           then max 0 (35 - total_presences s)
         else
           (let presences_needed = (degrees s + 1) * 50
            in max 0 (presences_needed - total_presences s))))"

section \<open>The persistence gateway\<close>

text \<open>
  Firestore is an external collaborator. What the program can observe of it is kept in
  one record: the clock (\<^verbatim>\<open>datetime.now()\<close>), whether \<^verbatim>\<open>get_db()\<close> returns a handle
  or raises, whether a write to a given document or a read of a given collection
  raises, and the stored documents of each collection in the order the store streams
  them.
\<close>

datatype error = DbUnavailable | WriteFailed | ReadFailed

record world =
  now :: datetime
  db_up :: bool
  write_ok :: "string \<Rightarrow> string \<Rightarrow> bool"
  read_ok :: "string \<Rightarrow> bool"
  docs :: "string \<Rightarrow> (string \<times> document) list"

definition get_db :: "world \<Rightarrow> error + world" where
  "get_db w = (if db_up w then Inr w else Inl DbUnavailable)"

text \<open>
  \<^verbatim>\<open>db.collection(c).document(i).set(data, merge=True)\<close>: the fields of \<open>data\<close>
  replace or extend those of the stored document, and the other stored fields stay.
\<close>

definition doc_set :: "world \<Rightarrow> string \<Rightarrow> string \<Rightarrow> document \<Rightarrow> error + world" where
  "doc_set w c i data =
     (if write_ok w c i then
        (let old = (case map_of (docs w c) i of None \<Rightarrow> Map.empty | Some d \<Rightarrow> d)
         in Inr (w\<lparr>docs := (docs w)(c := AList.update i (old ++ data) (docs w c))\<rparr>))
      else Inl WriteFailed)"

text \<open>\<^verbatim>\<open>db.collection(c).document(i).get()\<close>: the document, if it exists.\<close>

definition doc_get :: "world \<Rightarrow> string \<Rightarrow> string \<Rightarrow> error + document option" where
  "doc_get w c i = (if read_ok w c then Inr (map_of (docs w c) i) else Inl ReadFailed)"

text \<open>\<^verbatim>\<open>db.collection(c).stream()\<close>, consumed to its end.\<close>

definition stream :: "world \<Rightarrow> string \<Rightarrow> error + (string \<times> document) list" where
  "stream w c = (if read_ok w c then Inr (docs w c) else Inl ReadFailed)"

section \<open>Attendance, saving and roster queries\<close>

text \<open>
  \<^verbatim>\<open>add_presence\<close>. The object is mutated in place, so the model returns the student
  next to the boolean result and the store. \<^verbatim>\<open>get_db()\<close> is called inside the
  \<^verbatim>\<open>try\<close> and before the three assignments: when it raises, the handler returns
  \<^verbatim>\<open>False\<close> and nothing has been assigned.
\<close>

definition add_presence :: "world \<Rightarrow> datetime option \<Rightarrow> student \<Rightarrow> bool \<times> student \<times> world" where
  "add_presence w date s =
     (let date = (case date of None \<Rightarrow> now w | Some d \<Rightarrow> d) in
      case get_db w of
        Inl e \<Rightarrow> (False, s, w)
      | Inr db \<Rightarrow>
          (let s = s\<lparr>total_presences := total_presences s + 1\<rparr>;
               s = s\<lparr>last_presence_date := Some date\<rparr>;
               s = s\<lparr>history_presences := history_presences s @ [date]\<rparr>
           in case doc_set db ''students'' (uid s) (to_dict s) of
                Inl e \<Rightarrow> (False, s, db)
              | Inr db' \<Rightarrow> (True, s, db')))"

text \<open>A run of attendance calls on one record, each call in the world it meets.\<close>

fun add_presences :: "(world \<times> datetime option) list \<Rightarrow> student \<Rightarrow> student" where
  "add_presences [] s = s"
| "add_presences (c # cs) s = add_presences cs (fst (snd (add_presence (fst c) (snd c) s)))"

text \<open>\<^verbatim>\<open>save\<close>: the user-account document first, then the student document.\<close>

definition user_data :: "student \<Rightarrow> document" where
  "user_data s =
     [ ''uid'' \<mapsto> PyStr (uid s),
       ''email'' \<mapsto> PyStr (email s),
       ''role'' \<mapsto> PyStr ''aluno'',
       ''name'' \<mapsto> PyStr (name s),
       ''belt'' \<mapsto> PyStr (belt s),
       ''age'' \<mapsto> PyInt (age s),
       ''address'' \<mapsto> PyStr (address s),
       ''education'' \<mapsto> PyStr (education s),
       ''degrees'' \<mapsto> PyInt (degrees s) ]"

definition save :: "world \<Rightarrow> student \<Rightarrow> bool \<times> world" where
  "save w s =
     (case get_db w of
        Inl e \<Rightarrow> (False, w)
      | Inr db \<Rightarrow>
          (case doc_set db ''users'' (uid s) (user_data s) of
             Inl e \<Rightarrow> (False, db)
           | Inr db1 \<Rightarrow>
               (case doc_set db1 ''students'' (uid s) (to_dict s) of
                  Inl e \<Rightarrow> (False, db1)
                | Inr db2 \<Rightarrow> (True, db2))))"

text \<open>\<^verbatim>\<open>get_by_uid\<close>: \<^verbatim>\<open>None\<close> when the document is absent and on every error.\<close>

definition get_by_uid :: "world \<Rightarrow> string \<Rightarrow> student option" where
  "get_by_uid w i =
     (case get_db w of
        Inl e \<Rightarrow> None
      | Inr db \<Rightarrow>
          (case doc_get db ''students'' i of
             Inl e \<Rightarrow> None
           | Inr None \<Rightarrow> None
           | Inr (Some d) \<Rightarrow> Some (from_dict d)))"

text \<open>\<^verbatim>\<open>get_all\<close>: the loop appends one record per streamed document; any error gives \<open>[]\<close>.\<close>

fun get_all_loop :: "(string \<times> document) list \<Rightarrow> student list \<Rightarrow> student list" where
  "get_all_loop [] students = students"
| "get_all_loop (doc # rest) students = get_all_loop rest (students @ [from_dict (snd doc)])"

definition get_all :: "world \<Rightarrow> student list" where
  "get_all w =
     (case get_db w of
        Inl e \<Rightarrow> []
      | Inr db \<Rightarrow>
          (case stream db ''students'' of
             Inl e \<Rightarrow> []
           | Inr ds \<Rightarrow> get_all_loop ds []))"

text \<open>
  \<^verbatim>\<open>get_students_close_to_graduation\<close>: the loop over \<^verbatim>\<open>get_all()\<close> with its
  accumulator. The Python default \<^verbatim>\<open>max_presences=10\<close> is passed explicitly.
\<close>

fun close_loop :: "int \<Rightarrow> student list \<Rightarrow> student list \<Rightarrow> student list" where
  "close_loop max_presences [] close_to_graduation = close_to_graduation"
| "close_loop max_presences (student # rest) close_to_graduation =
     (let presences_needed = calculate_presences_for_next_degree student
      in if 0 < presences_needed \<and> presences_needed \<le> max_presences
         then close_loop max_presences rest (close_to_graduation @ [student])
         else close_loop max_presences rest close_to_graduation)"

definition get_students_close_to_graduation :: "world \<Rightarrow> int \<Rightarrow> student list" where
  "get_students_close_to_graduation w max_presences = close_loop max_presences (get_all w) []"

section \<open>Helper lemmas\<close>

lemma add_presence_keeps_count:
  "total_presences s = int (length (history_presences s)) \<Longrightarrow>
   total_presences (fst (snd (add_presence w d s))) =
     int (length (history_presences (fst (snd (add_presence w d s)))))"
  by (simp add: add_presence_def get_db_def doc_set_def Let_def split: option.splits)

lemma add_presences_keeps_count:
  "total_presences s = int (length (history_presences s)) \<Longrightarrow>
   total_presences (add_presences cs s) = int (length (history_presences (add_presences cs s)))"
  by (induction cs arbitrary: s) (simp_all add: add_presence_keeps_count)

lemma close_loop_filter:
  "close_loop m ss acc =
     acc @ filter (\<lambda>s. 0 < calculate_presences_for_next_degree s
                     \<and> calculate_presences_for_next_degree s \<le> m) ss"
  by (induction ss arbitrary: acc) (simp_all add: Let_def)

lemma get_all_loop_map: "get_all_loop ds acc = acc @ map (\<lambda>d. from_dict (snd d)) ds"
  by (induction ds arbitrary: acc) simp_all

section \<open>The adult bracket\<close>

text \<open>
  Claim C1, as amended. For every age of 14 or more the result is decided by the belt
  label, and the labels are the ones the source compares with: belt \<^verbatim>\<open>branca\<close> gives
  \<open>max 0 (50 - total_presences)\<close>; a belt among \<^verbatim>\<open>colorida\<close>, \<^verbatim>\<open>cinza\<close>,
  \<^verbatim>\<open>amarela\<close>, \<^verbatim>\<open>laranja\<close>, \<^verbatim>\<open>verde\<close> gives \<open>max 0 (35 - total_presences)\<close>;
  degrees are ignored in both. Every other label gives
  \<open>max 0 ((degrees + 1) * 50 - total_presences)\<close>.
\<close>

theorem adult_bracket_by_belt:
  "14 \<le> age s \<Longrightarrow>
   calculate_presences_for_next_degree s =
     (if belt s = ''branca'' then max 0 (50 - total_presences s)
      else if belt s \<in> {''colorida'', ''cinza'', ''amarela'', ''laranja'', ''verde''}
        then max 0 (35 - total_presences s)
      else max 0 ((degrees s + 1) * 50 - total_presences s))"
  by (simp add: calculate_presences_for_next_degree_def Let_def)

text \<open>The three rows at concrete adults: a white belt, a grey belt and a blue belt.\<close>

theorem adult_bracket_by_belt_witness:
  "14 \<le> age ((Student ''u1'' ''Ana'' ''ana@example.org'' ''branca'' 20 '''' '''' 0)\<lparr>total_presences := 30\<rparr>) \<and>
   calculate_presences_for_next_degree ((Student ''u1'' ''Ana'' ''ana@example.org'' ''branca'' 20 '''' '''' 0)\<lparr>total_presences := 30\<rparr>) = 20 \<and>
   14 \<le> age (Student ''u1'' ''Ana'' ''ana@example.org'' ''cinza'' 16 '''' '''' 3) \<and>
   calculate_presences_for_next_degree (Student ''u1'' ''Ana'' ''ana@example.org'' ''cinza'' 16 '''' '''' 3) = 35 \<and>
   14 \<le> age (Student ''u1'' ''Ana'' ''ana@example.org'' ''azul'' 25 '''' '''' 1) \<and>
   calculate_presences_for_next_degree (Student ''u1'' ''Ana'' ''ana@example.org'' ''azul'' 25 '''' '''' 1) = 100"
  using adult_bracket_by_belt [of "((Student ''u1'' ''Ana'' ''ana@example.org'' ''branca'' 20 '''' '''' 0)\<lparr>total_presences := 30\<rparr>)"]
        adult_bracket_by_belt [of "(Student ''u1'' ''Ana'' ''ana@example.org'' ''cinza'' 16 '''' '''' 3)"]
        adult_bracket_by_belt [of "(Student ''u1'' ''Ana'' ''ana@example.org'' ''azul'' 25 '''' '''' 1)"]
  by (simp add: Student_def)

text \<open>
  Claim C1 as stated names the belts \<^verbatim>\<open>white\<close>, \<^verbatim>\<open>grey\<close>, ...; the source does not
  know these labels and sends them to the generic formula. A 16-year-old with belt
  \<^verbatim>\<open>grey\<close>, three degrees and no presences needs 200, not 35.
\<close>

theorem adult_english_label_counterexample:
  "14 \<le> age (Student ''u1'' ''Ana'' ''ana@example.org'' ''grey'' 16 '''' '''' 3) \<and>
   belt (Student ''u1'' ''Ana'' ''ana@example.org'' ''grey'' 16 '''' '''' 3) = ''grey'' \<and>
   calculate_presences_for_next_degree (Student ''u1'' ''Ana'' ''ana@example.org'' ''grey'' 16 '''' '''' 3) = 200 \<and>
   calculate_presences_for_next_degree (Student ''u1'' ''Ana'' ''ana@example.org'' ''grey'' 16 '''' '''' 3)
     \<noteq> max 0 (35 - total_presences (Student ''u1'' ''Ana'' ''ana@example.org'' ''grey'' 16 '''' '''' 3))"
  by (simp add: calculate_presences_for_next_degree_def Student_def)

section \<open>Negative counts\<close>

text \<open>
  Claim C2, as amended. For every age and belt, negative degrees and negative
  total_presences are not clamped to zero: the evaluator applies its bracket rules to
  the values as given. With a negative total_presences and degrees \<open>\<ge> 0\<close>, the
  result is the result at total_presences 0 minus total_presences, so larger by the
  absolute value; the one exception is the kids bracket with degrees \<open>\<ge> 4\<close>, where
  the result is 0. With a negative degrees, the result is 0 for age \<open>\<le> 6\<close> (not the
  10-presence row of degrees 0), \<open>max 0 ((degrees + 1) * 25 - total_presences)\<close> for
  ages 7 to 13, and for age \<open>\<ge> 14\<close> it is \<open>max 0 (50 - total_presences)\<close> for belt
  \<^verbatim>\<open>branca\<close>, \<open>max 0 (35 - total_presences)\<close> for the five coloured labels and
  \<open>max 0 ((degrees + 1) * 50 - total_presences)\<close> for any other belt.
\<close>

theorem negative_counts_not_clamped:
  "(total_presences s < 0 \<and> 0 \<le> degrees s \<and> \<not> (age s \<le> 6 \<and> 4 \<le> degrees s) \<longrightarrow>
      calculate_presences_for_next_degree s
        = calculate_presences_for_next_degree (s\<lparr>total_presences := 0\<rparr>)
            - total_presences s) \<and>
   (total_presences s < 0 \<and> age s \<le> 6 \<and> 4 \<le> degrees s \<longrightarrow>
      calculate_presences_for_next_degree s = 0) \<and>
   (degrees s < 0 \<longrightarrow>
      calculate_presences_for_next_degree s =
        (if age s \<le> 6 then 0
         else if age s \<le> 13 then max 0 ((degrees s + 1) * 25 - total_presences s)
         else if belt s = ''branca'' then max 0 (50 - total_presences s)
         else if belt s \<in> {''colorida'', ''cinza'', ''amarela'', ''laranja'', ''verde''}
           then max 0 (35 - total_presences s)
         else max 0 ((degrees s + 1) * 50 - total_presences s)))"
proof -
  have shifted: "calculate_presences_for_next_degree s
        = calculate_presences_for_next_degree (s\<lparr>total_presences := 0\<rparr>)
            - total_presences s"
    if "total_presences s < 0" "0 \<le> degrees s" "\<not> (age s \<le> 6 \<and> 4 \<le> degrees s)"
    using that unfolding calculate_presences_for_next_degree_def Let_def
    by (cases "age s \<le> 6"; cases "age s \<le> 13"; simp; linarith?)
  have sentinel: "calculate_presences_for_next_degree s = 0"
    if "age s \<le> 6" "4 \<le> degrees s"
    using that by (simp add: calculate_presences_for_next_degree_def)
  have neg_degrees: "calculate_presences_for_next_degree s =
        (if age s \<le> 6 then 0
         else if age s \<le> 13 then max 0 ((degrees s + 1) * 25 - total_presences s)
         else if belt s = ''branca'' then max 0 (50 - total_presences s)
         else if belt s \<in> {''colorida'', ''cinza'', ''amarela'', ''laranja'', ''verde''}
           then max 0 (35 - total_presences s)
         else max 0 ((degrees s + 1) * 50 - total_presences s))"
    if "degrees s < 0"
    using that by (simp add: calculate_presences_for_next_degree_def Let_def)
  from shifted sentinel neg_degrees show ?thesis by blast
qed

text \<open>
  An adult white belt with total_presences \<open>-5\<close> (55, five more than at zero), a child
  with four degrees and total_presences \<open>-5\<close> (0), a child with degrees \<open>-1\<close> (0,
  where degrees 0 would give 10), and a ten-year-old with degrees \<open>-2\<close> and
  total_presences \<open>-30\<close> (5, where both counts at zero would give 25).
\<close>

theorem negative_counts_not_clamped_witness:
  "total_presences ((Student ''u1'' ''Ana'' ''ana@example.org'' ''branca'' 20 '''' '''' 0)\<lparr>total_presences := - 5\<rparr>) < 0 \<and> 0 \<le> degrees ((Student ''u1'' ''Ana'' ''ana@example.org'' ''branca'' 20 '''' '''' 0)\<lparr>total_presences := - 5\<rparr>) \<and>
   \<not> (age ((Student ''u1'' ''Ana'' ''ana@example.org'' ''branca'' 20 '''' '''' 0)\<lparr>total_presences := - 5\<rparr>) \<le> 6 \<and> 4 \<le> degrees ((Student ''u1'' ''Ana'' ''ana@example.org'' ''branca'' 20 '''' '''' 0)\<lparr>total_presences := - 5\<rparr>)) \<and>
   calculate_presences_for_next_degree ((Student ''u1'' ''Ana'' ''ana@example.org'' ''branca'' 20 '''' '''' 0)\<lparr>total_presences := - 5\<rparr>) = 55 \<and>
   calculate_presences_for_next_degree (((Student ''u1'' ''Ana'' ''ana@example.org'' ''branca'' 20 '''' '''' 0)\<lparr>total_presences := - 5\<rparr>)\<lparr>total_presences := 0\<rparr>) = 50 \<and>
   total_presences ((Student ''u1'' ''Ana'' ''ana@example.org'' ''branca'' 5 '''' '''' 4)\<lparr>total_presences := - 5\<rparr>) < 0 \<and> age ((Student ''u1'' ''Ana'' ''ana@example.org'' ''branca'' 5 '''' '''' 4)\<lparr>total_presences := - 5\<rparr>) \<le> 6 \<and> 4 \<le> degrees ((Student ''u1'' ''Ana'' ''ana@example.org'' ''branca'' 5 '''' '''' 4)\<lparr>total_presences := - 5\<rparr>) \<and>
   calculate_presences_for_next_degree ((Student ''u1'' ''Ana'' ''ana@example.org'' ''branca'' 5 '''' '''' 4)\<lparr>total_presences := - 5\<rparr>) = 0 \<and>
   degrees ((Student ''u1'' ''Ana'' ''ana@example.org'' ''branca'' 5 '''' '''' 0)\<lparr>degrees := - 1\<rparr>) < 0 \<and>
   calculate_presences_for_next_degree ((Student ''u1'' ''Ana'' ''ana@example.org'' ''branca'' 5 '''' '''' 0)\<lparr>degrees := - 1\<rparr>) = 0 \<and>
   calculate_presences_for_next_degree (((Student ''u1'' ''Ana'' ''ana@example.org'' ''branca'' 5 '''' '''' 0)\<lparr>degrees := - 1\<rparr>)\<lparr>degrees := 0\<rparr>) = 10 \<and>
   degrees ((Student ''u1'' ''Ana'' ''ana@example.org'' ''colorida'' 10 '''' '''' 0)\<lparr>degrees := - 2, total_presences := - 30\<rparr>) < 0 \<and>
   calculate_presences_for_next_degree ((Student ''u1'' ''Ana'' ''ana@example.org'' ''colorida'' 10 '''' '''' 0)\<lparr>degrees := - 2, total_presences := - 30\<rparr>) = 5"
proof -
  have at_zero: "calculate_presences_for_next_degree (((Student ''u1'' ''Ana'' ''ana@example.org'' ''branca'' 20 '''' '''' 0)\<lparr>total_presences := - 5\<rparr>)\<lparr>total_presences := 0\<rparr>) = 50"
    by (simp add: calculate_presences_for_next_degree_def Student_def)
  have row_zero: "calculate_presences_for_next_degree (((Student ''u1'' ''Ana'' ''ana@example.org'' ''branca'' 5 '''' '''' 0)\<lparr>degrees := - 1\<rparr>)\<lparr>degrees := 0\<rparr>) = 10"
    by (simp add: calculate_presences_for_next_degree_def Student_def)
  from at_zero row_zero
       negative_counts_not_clamped [of "((Student ''u1'' ''Ana'' ''ana@example.org'' ''branca'' 20 '''' '''' 0)\<lparr>total_presences := - 5\<rparr>)"]
       negative_counts_not_clamped [of "((Student ''u1'' ''Ana'' ''ana@example.org'' ''branca'' 5 '''' '''' 4)\<lparr>total_presences := - 5\<rparr>)"]
       negative_counts_not_clamped [of "((Student ''u1'' ''Ana'' ''ana@example.org'' ''branca'' 5 '''' '''' 0)\<lparr>degrees := - 1\<rparr>)"]
       negative_counts_not_clamped [of "((Student ''u1'' ''Ana'' ''ana@example.org'' ''colorida'' 10 '''' '''' 0)\<lparr>degrees := - 2, total_presences := - 30\<rparr>)"]
  show ?thesis by (simp add: Student_def)
qed

text \<open>
  Claim C2 as stated fails: an adult white belt with total_presences \<open>-5\<close> needs 55,
  and 50 once the \<open>-5\<close> is replaced by zero.
\<close>

theorem negative_total_counterexample:
  "total_presences ((Student ''u1'' ''Ana'' ''ana@example.org'' ''branca'' 20 '''' '''' 0)\<lparr>total_presences := - 5\<rparr>) < 0 \<and>
   calculate_presences_for_next_degree ((Student ''u1'' ''Ana'' ''ana@example.org'' ''branca'' 20 '''' '''' 0)\<lparr>total_presences := - 5\<rparr>) = 55 \<and>
   calculate_presences_for_next_degree (((Student ''u1'' ''Ana'' ''ana@example.org'' ''branca'' 20 '''' '''' 0)\<lparr>total_presences := - 5\<rparr>)\<lparr>total_presences := 0\<rparr>) = 50"
  by (simp add: calculate_presences_for_next_degree_def Student_def)

section \<open>The kids and youth brackets\<close>

text \<open>
  Claim C3. For every belt and every total_presences \<open>\<ge> 0\<close>, when age \<open>\<le> 6\<close> the
  evaluator returns \<open>max 0 (10 - total_presences)\<close> for degrees 0,
  \<open>max 0 (15 - total_presences)\<close> for degrees 1 or 2, \<open>max 0 (20 - total_presences)\<close>
  for degrees 3, and exactly 0 for every degrees \<open>\<ge> 4\<close>, whatever total_presences is.
\<close>

theorem kids_bracket_table:
  "age s \<le> 6 \<Longrightarrow> 0 \<le> total_presences s \<Longrightarrow>
   (degrees s = 0 \<longrightarrow>
      calculate_presences_for_next_degree s = max 0 (10 - total_presences s)) \<and>
   (degrees s = 1 \<or> degrees s = 2 \<longrightarrow>
      calculate_presences_for_next_degree s = max 0 (15 - total_presences s)) \<and>
   (degrees s = 3 \<longrightarrow>
      calculate_presences_for_next_degree s = max 0 (20 - total_presences s)) \<and>
   (4 \<le> degrees s \<longrightarrow> calculate_presences_for_next_degree s = 0)"
  by (simp add: calculate_presences_for_next_degree_def)

text \<open>One child per row of the table, the last one with ten degrees.\<close>

theorem kids_bracket_table_witness:
  "age ((Student ''u1'' ''Ana'' ''ana@example.org'' ''branca'' 3 '''' '''' 0)\<lparr>total_presences := 12\<rparr>) \<le> 6 \<and> 0 \<le> total_presences ((Student ''u1'' ''Ana'' ''ana@example.org'' ''branca'' 3 '''' '''' 0)\<lparr>total_presences := 12\<rparr>) \<and> degrees ((Student ''u1'' ''Ana'' ''ana@example.org'' ''branca'' 3 '''' '''' 0)\<lparr>total_presences := 12\<rparr>) = 0 \<and>
   calculate_presences_for_next_degree ((Student ''u1'' ''Ana'' ''ana@example.org'' ''branca'' 3 '''' '''' 0)\<lparr>total_presences := 12\<rparr>) = 0 \<and>
   age ((Student ''u1'' ''Ana'' ''ana@example.org'' ''branca'' 5 '''' '''' 2)\<lparr>total_presences := 4\<rparr>) \<le> 6 \<and> 0 \<le> total_presences ((Student ''u1'' ''Ana'' ''ana@example.org'' ''branca'' 5 '''' '''' 2)\<lparr>total_presences := 4\<rparr>) \<and> degrees ((Student ''u1'' ''Ana'' ''ana@example.org'' ''branca'' 5 '''' '''' 2)\<lparr>total_presences := 4\<rparr>) = 2 \<and>
   calculate_presences_for_next_degree ((Student ''u1'' ''Ana'' ''ana@example.org'' ''branca'' 5 '''' '''' 2)\<lparr>total_presences := 4\<rparr>) = 11 \<and>
   age (Student ''u1'' ''Ana'' ''ana@example.org'' ''branca'' 6 '''' '''' 3) \<le> 6 \<and> 0 \<le> total_presences (Student ''u1'' ''Ana'' ''ana@example.org'' ''branca'' 6 '''' '''' 3) \<and> degrees (Student ''u1'' ''Ana'' ''ana@example.org'' ''branca'' 6 '''' '''' 3) = 3 \<and>
   calculate_presences_for_next_degree (Student ''u1'' ''Ana'' ''ana@example.org'' ''branca'' 6 '''' '''' 3) = 20 \<and>
   age ((Student ''u1'' ''Ana'' ''ana@example.org'' ''azul'' 5 '''' '''' 10)\<lparr>total_presences := 0\<rparr>) \<le> 6 \<and> 0 \<le> total_presences ((Student ''u1'' ''Ana'' ''ana@example.org'' ''azul'' 5 '''' '''' 10)\<lparr>total_presences := 0\<rparr>) \<and> 4 \<le> degrees ((Student ''u1'' ''Ana'' ''ana@example.org'' ''azul'' 5 '''' '''' 10)\<lparr>total_presences := 0\<rparr>) \<and>
   calculate_presences_for_next_degree ((Student ''u1'' ''Ana'' ''ana@example.org'' ''azul'' 5 '''' '''' 10)\<lparr>total_presences := 0\<rparr>) = 0"
  using kids_bracket_table [of "((Student ''u1'' ''Ana'' ''ana@example.org'' ''branca'' 3 '''' '''' 0)\<lparr>total_presences := 12\<rparr>)"] kids_bracket_table [of "((Student ''u1'' ''Ana'' ''ana@example.org'' ''branca'' 5 '''' '''' 2)\<lparr>total_presences := 4\<rparr>)"]
        kids_bracket_table [of "(Student ''u1'' ''Ana'' ''ana@example.org'' ''branca'' 6 '''' '''' 3)"] kids_bracket_table [of "((Student ''u1'' ''Ana'' ''ana@example.org'' ''azul'' 5 '''' '''' 10)\<lparr>total_presences := 0\<rparr>)"]
  by (simp add: Student_def)

text \<open>
  Claim C4. For every age from 7 to 13, every belt, every degrees \<open>\<ge> 0\<close> and every
  total_presences \<open>\<ge> 0\<close>, the evaluator returns
  \<open>max 0 ((degrees + 1) * 25 - total_presences)\<close>.
\<close>

theorem youth_bracket_formula:
  "7 \<le> age s \<Longrightarrow> age s \<le> 13 \<Longrightarrow> 0 \<le> degrees s \<Longrightarrow> 0 \<le> total_presences s \<Longrightarrow>
   calculate_presences_for_next_degree s = max 0 ((degrees s + 1) * 25 - total_presences s)"
  by (simp add: calculate_presences_for_next_degree_def Let_def)

theorem youth_bracket_formula_witness:
  "7 \<le> age (Student ''u1'' ''Ana'' ''ana@example.org'' ''colorida'' 10 '''' '''' 2) \<and> age (Student ''u1'' ''Ana'' ''ana@example.org'' ''colorida'' 10 '''' '''' 2) \<le> 13 \<and> 0 \<le> degrees (Student ''u1'' ''Ana'' ''ana@example.org'' ''colorida'' 10 '''' '''' 2) \<and> 0 \<le> total_presences (Student ''u1'' ''Ana'' ''ana@example.org'' ''colorida'' 10 '''' '''' 2) \<and>
   calculate_presences_for_next_degree (Student ''u1'' ''Ana'' ''ana@example.org'' ''colorida'' 10 '''' '''' 2) = 75"
  using youth_bracket_formula [of "(Student ''u1'' ''Ana'' ''ana@example.org'' ''colorida'' 10 '''' '''' 2)"]
  by (simp add: Student_def)

section \<open>Recording attendance\<close>

text \<open>
  Claim C5, as amended. For every student record and every timestamp, when
  \<^verbatim>\<open>get_db()\<close> returns a handle, \<^verbatim>\<open>add_presence\<close> increments total_presences by
  exactly 1, sets last_presence_date to that timestamp and appends it to
  history_presences; the call reports the outcome of the gateway write, so a failed
  write is reported as failure with the record already changed. When \<^verbatim>\<open>get_db()\<close>
  itself raises, the call reports failure and the record is unchanged.
\<close>

theorem add_presence_effects:
  "(db_up w \<longrightarrow>
      total_presences (fst (snd (add_presence w (Some t) s))) = total_presences s + 1 \<and>
      last_presence_date (fst (snd (add_presence w (Some t) s))) = Some t \<and>
      history_presences (fst (snd (add_presence w (Some t) s))) = history_presences s @ [t] \<and>
      fst (add_presence w (Some t) s) = write_ok w ''students'' (uid s)) \<and>
   (\<not> db_up w \<longrightarrow> add_presence w (Some t) s = (False, s, w))"
  by (simp add: add_presence_def get_db_def doc_set_def Let_def)

text \<open>A store that rejects the write, then a store whose handle cannot be obtained.\<close>

theorem add_presence_effects_witness:
  "db_up \<lparr>now = Datetime 0, db_up = True, write_ok = \<lambda>c i. False, read_ok = \<lambda>c. True, docs = \<lambda>c. []\<rparr> \<and>
   \<not> fst (add_presence \<lparr>now = Datetime 0, db_up = True, write_ok = \<lambda>c i. False, read_ok = \<lambda>c. True, docs = \<lambda>c. []\<rparr> (Some (Datetime 7)) (Student ''u1'' ''Ana'' ''ana@example.org'' ''branca'' 20 '''' '''' 0)) \<and>
   total_presences (fst (snd (add_presence \<lparr>now = Datetime 0, db_up = True, write_ok = \<lambda>c i. False, read_ok = \<lambda>c. True, docs = \<lambda>c. []\<rparr> (Some (Datetime 7)) (Student ''u1'' ''Ana'' ''ana@example.org'' ''branca'' 20 '''' '''' 0)))) = 1 \<and>
   last_presence_date (fst (snd (add_presence \<lparr>now = Datetime 0, db_up = True, write_ok = \<lambda>c i. False, read_ok = \<lambda>c. True, docs = \<lambda>c. []\<rparr> (Some (Datetime 7)) (Student ''u1'' ''Ana'' ''ana@example.org'' ''branca'' 20 '''' '''' 0))))
     = Some (Datetime 7) \<and>
   history_presences (fst (snd (add_presence \<lparr>now = Datetime 0, db_up = True, write_ok = \<lambda>c i. False, read_ok = \<lambda>c. True, docs = \<lambda>c. []\<rparr> (Some (Datetime 7)) (Student ''u1'' ''Ana'' ''ana@example.org'' ''branca'' 20 '''' '''' 0))))
     = [Datetime 7] \<and>
   \<not> db_up \<lparr>now = Datetime 0, db_up = False, write_ok = \<lambda>c i. True, read_ok = \<lambda>c. True, docs = \<lambda>c. []\<rparr> \<and>
   add_presence \<lparr>now = Datetime 0, db_up = False, write_ok = \<lambda>c i. True, read_ok = \<lambda>c. True, docs = \<lambda>c. []\<rparr> (Some (Datetime 7)) (Student ''u1'' ''Ana'' ''ana@example.org'' ''branca'' 20 '''' '''' 0)
     = (False, (Student ''u1'' ''Ana'' ''ana@example.org'' ''branca'' 20 '''' '''' 0), \<lparr>now = Datetime 0, db_up = False, write_ok = \<lambda>c i. True, read_ok = \<lambda>c. True, docs = \<lambda>c. []\<rparr>)"
  using add_presence_effects [of "\<lparr>now = Datetime 0, db_up = True, write_ok = \<lambda>c i. False, read_ok = \<lambda>c. True, docs = \<lambda>c. []\<rparr>" "Datetime 7" "(Student ''u1'' ''Ana'' ''ana@example.org'' ''branca'' 20 '''' '''' 0)"]
        add_presence_effects [of "\<lparr>now = Datetime 0, db_up = False, write_ok = \<lambda>c i. True, read_ok = \<lambda>c. True, docs = \<lambda>c. []\<rparr>" "Datetime 7" "(Student ''u1'' ''Ana'' ''ana@example.org'' ''branca'' 20 '''' '''' 0)"]
  by (simp add: Student_def)

text \<open>
  Claim C5 as stated says that every call increments the counter and that every
  failure leaves the record changed. When \<^verbatim>\<open>get_db()\<close> raises, the call fails and
  the counter of a fresh record is still 0, its history still empty.
\<close>

theorem add_presence_db_down_counterexample:
  "\<not> fst (add_presence \<lparr>now = Datetime 0, db_up = False, write_ok = \<lambda>c i. True, read_ok = \<lambda>c. True, docs = \<lambda>c. []\<rparr> (Some (Datetime 7)) (Student ''u1'' ''Ana'' ''ana@example.org'' ''branca'' 20 '''' '''' 0)) \<and>
   total_presences (fst (snd (add_presence \<lparr>now = Datetime 0, db_up = False, write_ok = \<lambda>c i. True, read_ok = \<lambda>c. True, docs = \<lambda>c. []\<rparr> (Some (Datetime 7)) (Student ''u1'' ''Ana'' ''ana@example.org'' ''branca'' 20 '''' '''' 0))))
     \<noteq> total_presences (Student ''u1'' ''Ana'' ''ana@example.org'' ''branca'' 20 '''' '''' 0) + 1 \<and>
   last_presence_date (fst (snd (add_presence \<lparr>now = Datetime 0, db_up = False, write_ok = \<lambda>c i. True, read_ok = \<lambda>c. True, docs = \<lambda>c. []\<rparr> (Some (Datetime 7)) (Student ''u1'' ''Ana'' ''ana@example.org'' ''branca'' 20 '''' '''' 0))))
     \<noteq> Some (Datetime 7) \<and>
   history_presences (fst (snd (add_presence \<lparr>now = Datetime 0, db_up = False, write_ok = \<lambda>c i. True, read_ok = \<lambda>c. True, docs = \<lambda>c. []\<rparr> (Some (Datetime 7)) (Student ''u1'' ''Ana'' ''ana@example.org'' ''branca'' 20 '''' '''' 0)))) = []"
  by (simp add: add_presence_def get_db_def Student_def)

text \<open>
  Claim C6. Every Student the constructor creates has total_presences equal to the
  length of history_presences; every \<^verbatim>\<open>add_presence\<close> call keeps the equality, whatever
  the gateway does; so it holds after any run of attendance calls on a fresh record.
\<close>

theorem presences_match_history:
  "total_presences (Student u n e b a ad ed d)
     = int (length (history_presences (Student u n e b a ad ed d))) \<and>
   (total_presences s = int (length (history_presences s)) \<longrightarrow>
      total_presences (fst (snd (add_presence w dt s)))
        = int (length (history_presences (fst (snd (add_presence w dt s)))))) \<and>
   total_presences (add_presences cs (Student u n e b a ad ed d))
     = int (length (history_presences (add_presences cs (Student u n e b a ad ed d))))"
proof -
  have fresh: "total_presences (Student u n e b a ad ed d)
                 = int (length (history_presences (Student u n e b a ad ed d)))"
    by (simp add: Student_def)
  have step: "total_presences s = int (length (history_presences s)) \<longrightarrow>
      total_presences (fst (snd (add_presence w dt s)))
        = int (length (history_presences (fst (snd (add_presence w dt s)))))"
    by (simp add: add_presence_keeps_count)
  have run: "total_presences (add_presences cs (Student u n e b a ad ed d))
     = int (length (history_presences (add_presences cs (Student u n e b a ad ed d))))"
    using fresh by (rule add_presences_keeps_count)
  from fresh step run show ?thesis by blast
qed

text \<open>A fresh record, one call on it, and a run of three calls, two of which fail.\<close>

theorem presences_match_history_witness:
  "total_presences (Student ''u1'' ''Ana'' ''ana@example.org'' ''branca'' 20 '''' '''' 0) = int (length (history_presences (Student ''u1'' ''Ana'' ''ana@example.org'' ''branca'' 20 '''' '''' 0))) \<and>
   total_presences (fst (snd (add_presence \<lparr>now = Datetime 0, db_up = True, write_ok = \<lambda>c i. True, read_ok = \<lambda>c. True, docs = \<lambda>c. []\<rparr> (Some (Datetime 7)) (Student ''u1'' ''Ana'' ''ana@example.org'' ''branca'' 20 '''' '''' 0))))
     = int (length (history_presences (fst (snd (add_presence \<lparr>now = Datetime 0, db_up = True, write_ok = \<lambda>c i. True, read_ok = \<lambda>c. True, docs = \<lambda>c. []\<rparr> (Some (Datetime 7)) (Student ''u1'' ''Ana'' ''ana@example.org'' ''branca'' 20 '''' '''' 0)))))) \<and>
   total_presences (add_presences
       [(\<lparr>now = Datetime 0, db_up = True, write_ok = \<lambda>c i. True, read_ok = \<lambda>c. True, docs = \<lambda>c. []\<rparr>, Some (Datetime 7)), (\<lparr>now = Datetime 0, db_up = False, write_ok = \<lambda>c i. True, read_ok = \<lambda>c. True, docs = \<lambda>c. []\<rparr>, None), (\<lparr>now = Datetime 0, db_up = True, write_ok = \<lambda>c i. False, read_ok = \<lambda>c. True, docs = \<lambda>c. []\<rparr>, None)] (Student ''u1'' ''Ana'' ''ana@example.org'' ''branca'' 20 '''' '''' 0))
     = int (length (history_presences (add_presences
       [(\<lparr>now = Datetime 0, db_up = True, write_ok = \<lambda>c i. True, read_ok = \<lambda>c. True, docs = \<lambda>c. []\<rparr>, Some (Datetime 7)), (\<lparr>now = Datetime 0, db_up = False, write_ok = \<lambda>c i. True, read_ok = \<lambda>c. True, docs = \<lambda>c. []\<rparr>, None), (\<lparr>now = Datetime 0, db_up = True, write_ok = \<lambda>c i. False, read_ok = \<lambda>c. True, docs = \<lambda>c. []\<rparr>, None)] (Student ''u1'' ''Ana'' ''ana@example.org'' ''branca'' 20 '''' '''' 0))))"
  using presences_match_history
    [of "''u1''" "''Ana''" "''ana@example.org''" "''branca''" 20 "''''" "''''" 0
        "(Student ''u1'' ''Ana'' ''ana@example.org'' ''branca'' 20 '''' '''' 0)" "\<lparr>now = Datetime 0, db_up = True, write_ok = \<lambda>c i. True, read_ok = \<lambda>c. True, docs = \<lambda>c. []\<rparr>" "Some (Datetime 7)"
        "[(\<lparr>now = Datetime 0, db_up = True, write_ok = \<lambda>c i. True, read_ok = \<lambda>c. True, docs = \<lambda>c. []\<rparr>, Some (Datetime 7)), (\<lparr>now = Datetime 0, db_up = False, write_ok = \<lambda>c i. True, read_ok = \<lambda>c. True, docs = \<lambda>c. []\<rparr>, None), (\<lparr>now = Datetime 0, db_up = True, write_ok = \<lambda>c i. False, read_ok = \<lambda>c. True, docs = \<lambda>c. []\<rparr>, None)]"]
  by simp

section \<open>Serialisation\<close>

text \<open>
  Claim C7. For every Student record \<open>s\<close>, \<^verbatim>\<open>Student.from_dict(s.to_dict())\<close> equals
  \<open>s\<close> field for field. The same holds for a record that \<^verbatim>\<open>from_dict\<close> built from any
  dictionary, absent optional fields having taken their empty or zero defaults: a
  dictionary holding only uid, name, email, belt and age yields the record the
  constructor gives with empty address and education and zero degrees.
\<close>

theorem from_dict_to_dict_roundtrip:
  "from_dict (to_dict s) = s \<and>
   from_dict (to_dict (from_dict data)) = from_dict data \<and>
   from_dict [''uid'' \<mapsto> PyStr u, ''name'' \<mapsto> PyStr n, ''email'' \<mapsto> PyStr e,
              ''belt'' \<mapsto> PyStr b, ''age'' \<mapsto> PyInt a]
     = Student u n e b a '''' '''' 0"
proof -
  have rt: "from_dict (to_dict r) = r" for r
    by (simp add: from_dict_def to_dict_def Student_def get_str_def get_int_def
          get_date_def get_dates_def Let_def split: option.splits)
  have dflt: "from_dict [''uid'' \<mapsto> PyStr u, ''name'' \<mapsto> PyStr n, ''email'' \<mapsto> PyStr e,
                         ''belt'' \<mapsto> PyStr b, ''age'' \<mapsto> PyInt a]
                = Student u n e b a '''' '''' 0"
    by (simp add: from_dict_def Student_def get_str_def get_int_def
          get_date_def get_dates_def Let_def)
  from rt [of s] rt [of "from_dict data"] dflt show ?thesis by simp
qed

section \<open>Roster queries\<close>

text \<open>
  Claim C8. For every store and every threshold, \<^verbatim>\<open>get_students_close_to_graduation\<close>
  returns exactly those records of \<^verbatim>\<open>get_all()\<close>, in their order, whose presences
  still needed \<open>n\<close> satisfy \<open>0 < n\<close> and \<open>n \<le> threshold\<close>: a record with \<open>n = 0\<close> is
  left out, and so is one with \<open>n\<close> above the threshold.
\<close>

theorem close_to_graduation_filter:
  "get_students_close_to_graduation w max_presences =
     filter (\<lambda>s. 0 < calculate_presences_for_next_degree s
                  \<and> calculate_presences_for_next_degree s \<le> max_presences)
            (get_all w)"
  by (simp add: get_students_close_to_graduation_def close_loop_filter)

section \<open>Saving marks the account as a student\<close>

text \<open>
  Claim C10. After every successful \<^verbatim>\<open>save\<close>, the user-account document stored under
  the student's uid has its role field equal to \<^verbatim>\<open>aluno\<close>, whatever role was stored
  there before.
\<close>

theorem save_marks_aluno:
  "fst (save w s) \<Longrightarrow>
   Option.bind (map_of (docs (snd (save w s)) ''users'') (uid s)) (\<lambda>d. d ''role'')
     = Some (PyStr ''aluno'')"
  by (auto simp: save_def get_db_def doc_set_def Let_def AList.update_conv' user_data_def
      split: if_splits)

text \<open>An account stored with role \<^verbatim>\<open>professor\<close> is a student's after the save.\<close>

theorem save_marks_aluno_witness:
  "Option.bind (map_of (docs \<lparr>now = Datetime 0, db_up = True, write_ok = \<lambda>c i. True, read_ok = \<lambda>c. True, docs = (\<lambda>c. [])(''users'' := [(''u1'', [''role'' \<mapsto> PyStr ''professor''])])\<rparr> ''users'') ''u1'') (\<lambda>d. d ''role'')
     = Some (PyStr ''professor'') \<and>
   fst (save \<lparr>now = Datetime 0, db_up = True, write_ok = \<lambda>c i. True, read_ok = \<lambda>c. True, docs = (\<lambda>c. [])(''users'' := [(''u1'', [''role'' \<mapsto> PyStr ''professor''])])\<rparr> (Student ''u1'' ''Ana'' ''ana@example.org'' ''branca'' 20 '''' '''' 0)) \<and>
   Option.bind (map_of (docs (snd (save \<lparr>now = Datetime 0, db_up = True, write_ok = \<lambda>c i. True, read_ok = \<lambda>c. True, docs = (\<lambda>c. [])(''users'' := [(''u1'', [''role'' \<mapsto> PyStr ''professor''])])\<rparr> (Student ''u1'' ''Ana'' ''ana@example.org'' ''branca'' 20 '''' '''' 0))) ''users'') ''u1'') (\<lambda>d. d ''role'')
     = Some (PyStr ''aluno'')"
proof -
  have ok: "fst (save \<lparr>now = Datetime 0, db_up = True, write_ok = \<lambda>c i. True, read_ok = \<lambda>c. True, docs = (\<lambda>c. [])(''users'' := [(''u1'', [''role'' \<mapsto> PyStr ''professor''])])\<rparr> (Student ''u1'' ''Ana'' ''ana@example.org'' ''branca'' 20 '''' '''' 0))"
    by (simp add: save_def get_db_def doc_set_def Let_def)
  have u: "uid (Student ''u1'' ''Ana'' ''ana@example.org'' ''branca'' 20 '''' '''' 0) = ''u1''"
    by (simp add: Student_def)
  from ok save_marks_aluno [OF ok] u show ?thesis by simp
qed

section \<open>The evaluator's result is never negative\<close>

text \<open>
  Claim C9. For every age, belt, degrees and total_presences, negative numbers
  included, the evaluator returns a non-negative integer.
\<close>

theorem presences_needed_nonneg: "0 \<le> calculate_presences_for_next_degree s"
  by (simp add: calculate_presences_for_next_degree_def Let_def)



end
